theory Spec2Isabelle
  imports Main "HOL-Library.Multiset"
begin

section \<open>Image request client (\<open>generateImage\<close>, src/App.tsx lines 32--101)\<close>

subsection \<open>Requests\<close>

text \<open>
  The request body is the argument of \<open>JSON.stringify\<close>: a tree of objects, arrays,
  strings and numbers. A property whose value is \<open>undefined\<close> is left out by
  \<open>JSON.stringify\<close>; \<open>opt_field\<close> writes that out.
\<close>

datatype json = JStr string | JNum int | JArr "json list" | JObj "(string \<times> json) list"

definition opt_field :: "string \<Rightarrow> string option \<Rightarrow> (string \<times> json) list" where
  "opt_field k v = (case v of None \<Rightarrow> [] | Some s \<Rightarrow> [(k, JStr s)])"

text \<open>
  \<open>s.split(',')\<close>: the pieces of \<open>s\<close> between commas; the empty string gives one
  empty piece. \<open>xs[i]\<close> on an array is \<open>undefined\<close> out of range.
\<close>

fun split_str :: "char \<Rightarrow> string \<Rightarrow> string list" where
  "split_str c [] = [[]]"
| "split_str c (x # xs) =
     (if x = c then [] # split_str c xs
      else (case split_str c xs of
              [] \<Rightarrow> [[x]]
            | w # ws \<Rightarrow> (x # w) # ws))"

fun index :: "'a list \<Rightarrow> nat \<Rightarrow> 'a option" where
  "index [] i = None"
| "index (x # xs) 0 = Some x"
| "index (x # xs) (Suc i) = index xs i"

definition gemini_url :: "string \<Rightarrow> string" where
  "gemini_url apiKey =
     ''https://generativelanguage.googleapis.com/v1beta/models/gemini-2.5-flash-image-preview:generateContent?key=''
       @ apiKey"

definition imagen_url :: "string \<Rightarrow> string" where
  "imagen_url apiKey =
     ''https://generativelanguage.googleapis.com/v1beta/models/imagen-4.0-generate-001:predict?key=''
       @ apiKey"

record request =
  url :: string
  body :: json
  isGemini :: bool

text \<open>
  \<open>if (imageBase64)\<close> is a truthiness test: \<open>null\<close> and the empty string both take the
  \<open>else\<close> branch.
\<close>

definition truthy :: "string option \<Rightarrow> bool" where
  "truthy v = (case v of None \<Rightarrow> False | Some s \<Rightarrow> s \<noteq> [])"

definition build_request :: "string \<Rightarrow> string \<Rightarrow> string option \<Rightarrow> request" where
  "build_request apiKey prompt imageBase64 =
     (if truthy imageBase64 then
        (let base64Data = index (split_str CHR '','' (the imageBase64)) 1 in
         \<lparr> url = gemini_url apiKey,
           body = JObj
             [(''contents'',
                 JArr [JObj [(''parts'',
                   JArr [JObj [(''text'', JStr prompt)],
                         JObj [(''inlineData'',
                            JObj ((''mimeType'', JStr ''image/png'') # opt_field ''data'' base64Data))]])]]),
              (''generationConfig'', JObj [(''responseModalities'', JArr [JStr ''IMAGE''])])],
           isGemini = True \<rparr>)
      else
        \<lparr> url = imagen_url apiKey,
          body = JObj
            [(''instances'', JArr [JObj [(''prompt'', JStr prompt)]]),
             (''parameters'', JObj [(''sampleCount'', JNum 1)])],
          isGemini = False \<rparr>)"

text \<open>Reading a request body back: \<open>v.k\<close> on an object and \<open>v[i]\<close> on an array.\<close>

fun field :: "json \<Rightarrow> string \<Rightarrow> json option" where
  "field (JObj kvs) k = map_of kvs k"
| "field _ k = None"

fun item :: "json \<Rightarrow> nat \<Rightarrow> json option" where
  "item (JArr vs) i = index vs i"
| "item _ i = None"

fun path :: "json \<Rightarrow> (string + nat) list \<Rightarrow> json option" where
  "path v [] = Some v"
| "path v (Inl k # ps) = (case field v k of None \<Rightarrow> None | Some w \<Rightarrow> path w ps)"
| "path v (Inr i # ps) = (case item v i of None \<Rightarrow> None | Some w \<Rightarrow> path w ps)"

subsection \<open>Responses\<close>

text \<open>
  The response JSON, as far as the code reads it: \<open>result.candidates?.[0]?.content?.parts\<close>
  with \<open>inlineData?.data\<close> on a part, and \<open>result.predictions[0].bytesBase64Encoded\<close>.
  A field that may be absent is an option.
\<close>

datatype inline_data = InlineData (mimeType: "string option") (data: "string option")

datatype part = Part (inlineData: "inline_data option")

datatype content = Content (parts: "part list option")

datatype candidate = Candidate (content: "content option")

datatype prediction = Prediction (bytesBase64Encoded: "string option")

record api_result =
  candidates :: "candidate list option"
  predictions :: "prediction list option"

text \<open>
  \<open>fetch\<close> rejects (no connection), or resolves with a response whose \<open>ok\<close> flag and
  \<open>status\<close> the code reads. The body is \<open>None\<close> when \<open>response.json()\<close> rejects or
  gives no object (reading \<open>result.candidates\<close> of \<open>null\<close> throws); either way the
  \<open>catch\<close> block runs.
\<close>

datatype fetch_outcome =
    Rejected
  | Response (ok: bool) (status: nat) (json_body: "api_result option")

datatype gen_error =
    FetchRejected
  | HttpError nat
  | JsonRejected
  | NoImageFromSketch
  | InvalidResponseFormat

definition bind_opt :: "'a option \<Rightarrow> ('a \<Rightarrow> 'b option) \<Rightarrow> 'b option" where
  "bind_opt v f = (case v of None \<Rightarrow> None | Some x \<Rightarrow> f x)"

text \<open>\<open>result.candidates?.[0]?.content?.parts?.find(p => p.inlineData)?.inlineData?.data\<close>\<close>

definition gemini_base64 :: "api_result \<Rightarrow> string option" where
  "gemini_base64 result =
     bind_opt (candidates result) (\<lambda>cs.
     bind_opt (index cs 0) (\<lambda>c.
     bind_opt (content c) (\<lambda>ct.
     bind_opt (parts ct) (\<lambda>ps.
     bind_opt (find (\<lambda>p. inlineData p \<noteq> None) ps) (\<lambda>p.
     bind_opt (inlineData p) data)))))"

text \<open>\<open>result.predictions[0].bytesBase64Encoded\<close>, behind the three guards of line 84.\<close>

definition imagen_base64 :: "api_result \<Rightarrow> string option" where
  "imagen_base64 result =
     bind_opt (predictions result) (\<lambda>ps.
     bind_opt (index ps 0) bytesBase64Encoded)"

text \<open>
  The body of the \<open>try\<close> block after the request is built: every \<open>throw\<close> and every
  rejected promise is an \<open>Inl\<close>.
\<close>

definition decode :: "bool \<Rightarrow> fetch_outcome \<Rightarrow> gen_error + string" where
  "decode gemini out =
     (case out of
        Rejected \<Rightarrow> Inl FetchRejected
      | Response is_ok st js \<Rightarrow>
          if \<not> is_ok then Inl (HttpError st)
          else (case js of
                  None \<Rightarrow> Inl JsonRejected
                | Some result \<Rightarrow>
                    if gemini then
                      (if truthy (gemini_base64 result)
                       then Inr (''data:image/png;base64,'' @ the (gemini_base64 result))
                       else Inl NoImageFromSketch)
                    else
                      (if truthy (imagen_base64 result)
                       then Inr (''data:image/png;base64,'' @ the (imagen_base64 result))
                       else Inl InvalidResponseFormat)))"

subsection \<open>The retry loop\<close>

text \<open>
  What a call does to the outside world, in order: a request sent, a warning logged with
  the attempt number, a wait of so many milliseconds.
\<close>

datatype effect = Fetch request | Warn nat | Sleep nat

definition delays :: "nat list" where
  "delays = [1000, 2000, 4000, 8000, 16000]"

definition fetch_count :: "effect list \<Rightarrow> nat" where
  "fetch_count tr = length (filter (\<lambda>e. case e of Fetch _ \<Rightarrow> True | _ \<Rightarrow> False) tr)"

definition sleeps :: "effect list \<Rightarrow> nat list" where
  "sleeps tr = concat (map (\<lambda>e. case e of Sleep d \<Rightarrow> [d] | _ \<Rightarrow> []) tr)"

text \<open>
  The network answers the requests of a call in order: \<open>net k req\<close> is the outcome of
  the request \<open>req\<close> when \<open>k\<close> requests were sent before it. \<open>generateImage\<close> threads the
  trace of effects; \<open>delays[retries]\<close> is read only under \<open>retries < 5\<close>, inside the array.
  \<open>retries\<close> is a count: callers leave it at its default 0 and the recursion adds 1.
\<close>

function generateImage ::
  "string \<Rightarrow> (nat \<Rightarrow> request \<Rightarrow> fetch_outcome) \<Rightarrow> string \<Rightarrow> string option \<Rightarrow> nat \<Rightarrow> effect list
     \<Rightarrow> (gen_error + string) \<times> effect list" where
  "generateImage apiKey net prompt imageBase64 retries tr =
     (let req = build_request apiKey prompt imageBase64;
          out = net (fetch_count tr) req;
          tr1 = tr @ [Fetch req]
      in case decode (isGemini req) out of
           Inr uri \<Rightarrow> (Inr uri, tr1)
         | Inl err \<Rightarrow>
             if retries < 5
             then generateImage apiKey net prompt imageBase64 (retries + 1)
                    (tr1 @ [Warn (retries + 1), Sleep (delays ! retries)])
             else (Inl err, tr1 @ [Warn (retries + 1)]))"
  by pat_completeness auto
termination
  by (relation "measure (\<lambda>(apiKey, net, prompt, imageBase64, retries, tr). 5 - retries)") auto

declare generateImage.simps [simp del]

text \<open>
  The trace of \<open>m\<close> failed attempts, the first of them made with \<open>retries = r\<close>: each is
  a request, the warning, and the wait before the next attempt.
\<close>

definition retry_trace :: "request \<Rightarrow> nat \<Rightarrow> nat \<Rightarrow> effect list" where
  "retry_trace req r m =
     concat (map (\<lambda>k. [Fetch req, Warn (k + 1), Sleep (delays ! k)]) [r..<r + m])"

section \<open>The \<open>App\<close> component: sync adapter and approve (src/App.tsx lines 281--450)\<close>

subsection \<open>Designs and snapshots\<close>

datatype DesignMode = Fashion | Architecture

fun mode_string :: "DesignMode \<Rightarrow> string" where
  "mode_string Fashion = ''fashion''"
| "mode_string Architecture = ''architecture''"

record ApprovedDesign =
  id' :: string
  prompt :: string
  style :: string
  mode :: string
  imageUrl :: string
  createdAt :: int

text \<open>
  What \<open>doc.data()\<close> returns: the stored fields of \<open>Omit<ApprovedDesign, 'id'>\<close>, where
  the code allows \<open>mode\<close> to be missing. \<open>createdAt\<close> is a \<open>Date.now()\<close> value, a whole
  number of milliseconds.
\<close>

record design_data =
  d_prompt :: string
  d_style :: string
  d_mode :: "string option"
  d_imageUrl :: string
  d_createdAt :: int

datatype doc = Doc (doc_id: string) (doc_data: design_data)

text \<open>
  The object literal \<open>{ id: doc.id, mode: data.mode || 'fashion', ...data }\<close>: the spread
  comes last, so a \<open>mode\<close> that \<open>data\<close> has replaces the one computed with \<open>||\<close>.
\<close>

definition to_design :: "doc \<Rightarrow> ApprovedDesign" where
  "to_design d =
     (let data = doc_data d;
          mode0 = (if truthy (d_mode data) then the (d_mode data) else ''fashion'')
      in \<lparr> id' = doc_id d,
           prompt = d_prompt data,
           style = d_style data,
           mode = (case d_mode data of None \<Rightarrow> mode0 | Some m \<Rightarrow> m),
           imageUrl = d_imageUrl data,
           createdAt = d_createdAt data \<rparr>)"

text \<open>
  \<open>fetchedDesigns.sort((a, b) => b.createdAt - a.createdAt)\<close>. \<open>Array.prototype.sort\<close> is
  stable and puts \<open>a\<close> before \<open>b\<close> when the comparator is negative; which algorithm runs is
  left to the engine. For this comparator the result is the same for every such algorithm;
  here it is computed by stable insertion.
\<close>

definition compare_created :: "ApprovedDesign \<Rightarrow> ApprovedDesign \<Rightarrow> int" where
  "compare_created a b = createdAt b - createdAt a"

fun insert_by :: "('a \<Rightarrow> 'a \<Rightarrow> int) \<Rightarrow> 'a \<Rightarrow> 'a list \<Rightarrow> 'a list" where
  "insert_by cmp x [] = [x]"
| "insert_by cmp x (y # ys) = (if cmp x y \<le> 0 then x # y # ys else y # insert_by cmp x ys)"

fun sort_by :: "('a \<Rightarrow> 'a \<Rightarrow> int) \<Rightarrow> 'a list \<Rightarrow> 'a list" where
  "sort_by cmp [] = []"
| "sort_by cmp (x # xs) = insert_by cmp x (sort_by cmp xs)"

subsection \<open>State\<close>

datatype user = User (uid: string)

text \<open>
  The component's state hooks and its ref, followed by what the component can see of
  Firebase: \<open>auth.currentUser\<close>, whether the auth-state listener is registered, the
  snapshot listeners that are attached (the handle \<open>onSnapshot\<close> returned, and the
  collection path), and the \<open>addDoc\<close> calls issued. \<open>db\<close> and \<open>auth\<close> are \<open>True\<close> once
  the instance is set (not \<open>null\<close>).
\<close>

record app_state =
  designMode :: DesignMode
  inputText :: string
  selectedStyle :: string
  loading :: bool
  currentImage :: "string option"
  error :: "string option"
  db :: bool
  auth :: bool
  userId :: "string option"
  approvedDesigns :: "ApprovedDesign list"
  isDbLoading :: bool
  unsubscribeRef :: "nat option"
  currentUser :: "user option"
  authListener :: bool
  listeners :: "(nat \<times> string) list"
  nextHandle :: nat
  addDocCalls :: "(string \<times> design_data) list"

definition initial_state :: app_state where
  "initial_state =
     \<lparr> designMode = Fashion, inputText = [], selectedStyle = ''Haute Couture'',
       loading = False, currentImage = None, error = None,
       db = False, auth = False, userId = None, approvedDesigns = [],
       isDbLoading = True, unsubscribeRef = None,
       currentUser = None, authListener = False, listeners = [], nextHandle = 0,
       addDocCalls = [] \<rparr>"

text \<open>\<open>typeof __app_id !== 'undefined' ? __app_id : 'default-app-id'\<close> and the path template.\<close>

definition appId :: "string option \<Rightarrow> string" where
  "appId app_id = (case app_id of None \<Rightarrow> ''default-app-id'' | Some a \<Rightarrow> a)"

definition designsCollectionPath :: "string option \<Rightarrow> string \<Rightarrow> string" where
  "designsCollectionPath app_id u =
     ''/artifacts/'' @ appId app_id @ ''/users/'' @ u @ ''/approvedDesigns''"

text \<open>\<open>onSnapshot\<close> attaches a listener and returns its unsubscribe function (a handle).\<close>

definition onSnapshot :: "string \<Rightarrow> app_state \<Rightarrow> nat \<times> app_state" where
  "onSnapshot p s =
     (nextHandle s,
      s\<lparr> listeners := listeners s @ [(nextHandle s, p)], nextHandle := Suc (nextHandle s) \<rparr>)"

definition unsubscribe :: "nat \<Rightarrow> app_state \<Rightarrow> app_state" where
  "unsubscribe h s = s\<lparr> listeners := filter (\<lambda>l. fst l \<noteq> h) (listeners s) \<rparr>"

subsection \<open>The auth and store effect (lines 341--409)\<close>

text \<open>The effect body up to the registration of the auth-state listener.\<close>

definition effect_setup :: "app_state \<Rightarrow> app_state" where
  "effect_setup s =
     (if \<not> auth s \<or> \<not> db s then s
      else
        (let s1 = (case unsubscribeRef s of
                     Some h \<Rightarrow> (unsubscribe h s)\<lparr> unsubscribeRef := None \<rparr>
                   | None \<Rightarrow> s)
         in s1\<lparr> authListener := True \<rparr>))"

text \<open>The callback given to \<open>onAuthStateChanged\<close>, called with the new user or \<open>null\<close>.\<close>

definition authStateChanged :: "string option \<Rightarrow> user option \<Rightarrow> app_state \<Rightarrow> app_state" where
  "authStateChanged app_id usr s =
     (let s1 = s\<lparr> isDbLoading := False \<rparr> in
      if usr = None \<or> uid (the usr) = [] then
        s1\<lparr> approvedDesigns := [], userId := None \<rparr>
      else
        (let currentUserId = uid (the usr);
             s2 = s1\<lparr> userId := Some currentUserId \<rparr>;
             (snapshotUnsubscribe, s3) = onSnapshot (designsCollectionPath app_id currentUserId) s2
         in s3\<lparr> unsubscribeRef := Some snapshotUnsubscribe \<rparr>))"

text \<open>The two callbacks given to \<open>onSnapshot\<close>: a snapshot, and a listener error.\<close>

definition snapshot_next :: "doc list \<Rightarrow> app_state \<Rightarrow> app_state" where
  "snapshot_next snapshot s =
     (let fetchedDesigns = sort_by compare_created (map to_design snapshot)
      in s\<lparr> approvedDesigns := fetchedDesigns, error := None \<rparr>)"

definition snapshot_error :: "app_state \<Rightarrow> app_state" where
  "snapshot_error s =
     s\<lparr> error := Some ''Error fetching approved designs from storage. Check console for path/permissions.'' \<rparr>"

text \<open>The cleanup function the effect returns.\<close>

definition effect_cleanup :: "app_state \<Rightarrow> app_state" where
  "effect_cleanup s =
     (let s1 = s\<lparr> authListener := False \<rparr> in
      case unsubscribeRef s1 of Some h \<Rightarrow> unsubscribe h s1 | None \<Rightarrow> s1)"

subsection \<open>Approve (lines 413--450)\<close>

text \<open>
  \<open>now\<close> is the value of \<open>Date.now()\<close>, and \<open>addDoc_ok\<close> says whether the promise of
  \<open>addDoc\<close> resolves (\<open>True\<close>) or rejects.
\<close>

definition handleApproveDesign :: "string option \<Rightarrow> int \<Rightarrow> bool \<Rightarrow> app_state \<Rightarrow> app_state" where
  "handleApproveDesign app_id now addDoc_ok s =
     (if \<not> db s \<or> \<not> auth s \<or> \<not> truthy (currentImage s) then
        s\<lparr> error := Some ''Cannot approve design: No generated image or storage not ready.'' \<rparr>
      else
        (let currentUid = map_option uid (currentUser s) in
         if \<not> truthy currentUid then
           s\<lparr> error := Some ''Cannot approve design: Authentication failed.'' \<rparr>
         else
           (let p = designsCollectionPath app_id (the currentUid);
                s1 = s\<lparr> loading := True \<rparr>;
                newDesign = \<lparr> d_prompt = inputText s, d_style = selectedStyle s,
                              d_mode = Some (mode_string (designMode s)),
                              d_imageUrl = the (currentImage s), d_createdAt = now \<rparr>;
                s2 = s1\<lparr> addDocCalls := addDocCalls s1 @ [(p, newDesign)] \<rparr>;
                s3 = (if addDoc_ok
                      then s2\<lparr> error := None, currentImage := None \<rparr>
                      else s2\<lparr> error := Some ''Failed to save design to storage.'' \<rparr>)
            in s3\<lparr> loading := False \<rparr>)))"

subsection \<open>Concrete inputs\<close>

text \<open>
  Snapshots, users and component states used where a statement is evaluated: two
  documents written in the same millisecond, three documents out of order (one of them
  without \<open>mode\<close>), the state once both instances are set and the effect has run, and
  that state with a signed-in user and a generated image on display.
\<close>

definition two_same_time :: "doc list" where
  "two_same_time =
     [Doc ''a'' \<lparr> d_prompt = ''coat'', d_style = ''Vintage'', d_mode = None,
                 d_imageUrl = ''data:image/png;base64,QUJD'', d_createdAt = 5 \<rparr>,
      Doc ''b'' \<lparr> d_prompt = ''house'', d_style = ''Tudor'', d_mode = Some ''architecture'',
                 d_imageUrl = ''data:image/png;base64,REVG'', d_createdAt = 5 \<rparr>]"

definition three_docs :: "doc list" where
  "three_docs =
     [Doc ''a'' \<lparr> d_prompt = ''coat'', d_style = ''Vintage'', d_mode = None,
                 d_imageUrl = ''data:image/png;base64,QUJD'', d_createdAt = 3 \<rparr>,
      Doc ''b'' \<lparr> d_prompt = ''house'', d_style = ''Tudor'', d_mode = Some ''architecture'',
                 d_imageUrl = ''data:image/png;base64,REVG'', d_createdAt = 9 \<rparr>,
      Doc ''c'' \<lparr> d_prompt = ''scarf'', d_style = ''Gothic'', d_mode = Some ''fashion'',
                 d_imageUrl = ''data:image/png;base64,R0hJ'', d_createdAt = 5 \<rparr>]"

definition ready_state :: app_state where
  "ready_state = effect_setup (initial_state\<lparr> db := True, auth := True \<rparr>)"

definition user_A :: user where
  "user_A = User ''A''"

definition user_B :: user where
  "user_B = User ''B''"

definition showing_image :: app_state where
  "showing_image =
     ready_state\<lparr> currentUser := Some user_A, currentImage := Some ''data:image/png;base64,QUJD'',
                  inputText := ''a red coat'' \<rparr>"

section \<open>Properties of the request client\<close>

lemma retry_trace_0: "retry_trace req r 0 = []"
  by (simp add: retry_trace_def)

lemma retry_trace_Suc:
  "retry_trace req r (Suc m) = [Fetch req, Warn (r + 1), Sleep (delays ! r)] @ retry_trace req (Suc r) m"
proof -
  have "[r..<r + Suc m] = r # [Suc r..<Suc r + m]" by (simp add: upt_rec)
  then show ?thesis by (simp add: retry_trace_def)
qed

lemma fetch_count_append: "fetch_count (xs @ ys) = fetch_count xs + fetch_count ys"
  by (simp add: fetch_count_def)

lemma fetch_count_step: "fetch_count (tr @ [Fetch req, Warn n, Sleep d]) = Suc (fetch_count tr)"
  by (simp add: fetch_count_def)

lemma fetch_count_retry_trace: "fetch_count (retry_trace req r m) = m"
  by (induction m arbitrary: r) (simp_all add: retry_trace_0 retry_trace_Suc fetch_count_def)

lemma sleeps_append: "sleeps (xs @ ys) = sleeps xs @ sleeps ys"
  by (simp add: sleeps_def)

lemma sleeps_retry_trace: "r + m \<le> 5 \<Longrightarrow> sleeps (retry_trace req r m) = take m (drop r delays)"
proof (induction m arbitrary: r)
  case 0 show ?case by (simp add: retry_trace_0 sleeps_def)
next
  case (Suc m)
  then have "sleeps (retry_trace req (Suc r) m) = take m (drop (Suc r) delays)" by simp
  moreover have "r < length delays" using Suc.prems by (simp add: delays_def)
  ultimately show ?case
    by (simp add: retry_trace_Suc sleeps_def Cons_nth_drop_Suc[symmetric])
qed

lemma decode_http_error: "decode g (Response False st js) = Inl (HttpError st)"
  by (simp add: decode_def)

lemma decode_missing_payload:
  "\<not> truthy (if g then gemini_base64 r else imagen_base64 r) \<Longrightarrow> isl (decode g (Response True st (Some r)))"
  by (cases g) (simp_all add: decode_def)

lemma generateImage_success_from:
  assumes "r + m \<le> 5"
    and "\<forall>j<m. isl (decode (isGemini (build_request apiKey promptText img)) (net (fetch_count tr + j) (build_request apiKey promptText img)))"
    and "decode (isGemini (build_request apiKey promptText img)) (net (fetch_count tr + m) (build_request apiKey promptText img)) = Inr uri"
  shows "generateImage apiKey net promptText img r tr =
           (Inr uri, tr @ retry_trace (build_request apiKey promptText img) r m @ [Fetch (build_request apiKey promptText img)])"
  using assms
proof (induction m arbitrary: r tr)
  case 0
  then show ?case
    by (subst generateImage.simps) (simp add: Let_def retry_trace_0)
next
  case (Suc m)
  let ?req = "build_request apiKey promptText img"
  let ?tr' = "tr @ [Fetch ?req, Warn (r + 1), Sleep (delays ! r)]"
  from Suc.prems(2) have fail: "isl (decode (isGemini ?req) (net (fetch_count tr) ?req))"
    by (auto dest: spec[where x=0])
  have r5: "r < 5" using Suc.prems(1) by simp
  have cnt: "fetch_count ?tr' = Suc (fetch_count tr)" by (rule fetch_count_step)
  have "generateImage apiKey net promptText img (Suc r) ?tr' =
          (Inr uri, ?tr' @ retry_trace ?req (Suc r) m @ [Fetch ?req])"
  proof (rule Suc.IH)
    show "Suc r + m \<le> 5" using Suc.prems(1) by simp
    show "\<forall>j<m. isl (decode (isGemini ?req) (net (fetch_count ?tr' + j) ?req))"
    proof (intro allI impI)
      fix j assume "j < m"
      then have "Suc j < Suc m" by simp
      with Suc.prems(2) have "isl (decode (isGemini ?req) (net (fetch_count tr + Suc j) ?req))"
        by blast
      then show "isl (decode (isGemini ?req) (net (fetch_count ?tr' + j) ?req))"
        by (simp add: fetch_count_step)
    qed
    show "decode (isGemini ?req) (net (fetch_count ?tr' + m) ?req) = Inr uri"
      using Suc.prems(3) by (simp add: fetch_count_step)
  qed
  moreover from fail obtain e where "decode (isGemini ?req) (net (fetch_count tr) ?req) = Inl e"
    by (auto simp: isl_def)
  ultimately show ?case using r5
    by (subst generateImage.simps) (simp add: Let_def retry_trace_Suc)
qed

lemma generateImage_failure_from:
  assumes "r + m = 5"
    and "\<forall>j\<le>m. isl (decode (isGemini (build_request apiKey promptText img)) (net (fetch_count tr + j) (build_request apiKey promptText img)))"
  shows "generateImage apiKey net promptText img r tr =
           (Inl (projl (decode (isGemini (build_request apiKey promptText img)) (net (fetch_count tr + m) (build_request apiKey promptText img)))),
            tr @ retry_trace (build_request apiKey promptText img) r m @ [Fetch (build_request apiKey promptText img), Warn 6])"
  using assms
proof (induction m arbitrary: r tr)
  case 0
  then obtain e where "decode (isGemini (build_request apiKey promptText img)) (net (fetch_count tr) (build_request apiKey promptText img)) = Inl e"
    by (auto simp: isl_def)
  then show ?case using 0
    by (subst generateImage.simps) (simp add: Let_def retry_trace_0)
next
  case (Suc m)
  let ?req = "build_request apiKey promptText img"
  let ?tr' = "tr @ [Fetch ?req, Warn (r + 1), Sleep (delays ! r)]"
  from Suc.prems(2) have fail: "isl (decode (isGemini ?req) (net (fetch_count tr) ?req))"
    by (auto dest: spec[where x=0])
  have r5: "r < 5" using Suc.prems(1) by simp
  have cnt: "fetch_count ?tr' = Suc (fetch_count tr)" by (rule fetch_count_step)
  have "generateImage apiKey net promptText img (Suc r) ?tr' =
          (Inl (projl (decode (isGemini ?req) (net (fetch_count ?tr' + m) ?req))),
           ?tr' @ retry_trace ?req (Suc r) m @ [Fetch ?req, Warn 6])"
  proof (rule Suc.IH)
    show "Suc r + m = 5" using Suc.prems(1) by simp
    show "\<forall>j\<le>m. isl (decode (isGemini ?req) (net (fetch_count ?tr' + j) ?req))"
    proof (intro allI impI)
      fix j assume "j \<le> m"
      then have "Suc j \<le> Suc m" by simp
      with Suc.prems(2) have "isl (decode (isGemini ?req) (net (fetch_count tr + Suc j) ?req))"
        by blast
      then show "isl (decode (isGemini ?req) (net (fetch_count ?tr' + j) ?req))"
        by (simp add: fetch_count_step)
    qed
  qed
  moreover from fail obtain e where "decode (isGemini ?req) (net (fetch_count tr) ?req) = Inl e"
    by (auto simp: isl_def)
  ultimately show ?case using r5
    by (subst generateImage.simps) (simp add: Let_def retry_trace_Suc fetch_count_step)
qed

lemma split_str_no_sep: "c \<notin> set s \<Longrightarrow> split_str c s = [s]"
  by (induction s) auto

lemma split_str_append: "c \<notin> set h \<Longrightarrow> split_str c (h @ c # rest) = h # split_str c rest"
  by (induction h) auto

lemma index_split_data_uri:
  assumes "CHR '','' \<notin> set header" and "CHR '','' \<notin> set payload"
  shows "index (split_str CHR '','' (header @ CHR '','' # payload)) 1 = Some payload"
  using assms by (simp add: split_str_append split_str_no_sep)

lemma endpoints_distinct: "gemini_url apiKey \<noteq> imagen_url apiKey"
  by (simp add: gemini_url_def imagen_url_def)

text \<open>
  Claim C1. For every promptText and optional reference image: when the first \<open>N \<le> 5\<close>
  attempts fail (the \<open>try\<close> block throws: a status that is not a success, a missing
  image payload, a rejected \<open>fetch\<close> or body) and the next one succeeds with \<open>uri\<close>, the
  call returns \<open>uri\<close>. Its trace is \<open>N\<close> rounds of request, warning and wait followed by
  the last request: \<open>N + 1\<close> requests, that is \<open>N\<close> retries, and the waits are the first
  \<open>N\<close> of 1000, 2000, 4000, 8000, 16000 milliseconds, in that order.
\<close>

theorem generateImage_retries_then_succeeds:
  assumes "N \<le> 5"
    and "\<forall>k<N. isl (decode (isGemini (build_request apiKey promptText img))
                        (net k (build_request apiKey promptText img)))"
    and "decode (isGemini (build_request apiKey promptText img))
           (net N (build_request apiKey promptText img)) = Inr uri"
  shows "generateImage apiKey net promptText img 0 [] =
           (Inr uri,
            retry_trace (build_request apiKey promptText img) 0 N
              @ [Fetch (build_request apiKey promptText img)])
         \<and> fetch_count (snd (generateImage apiKey net promptText img 0 [])) = N + 1
         \<and> sleeps (snd (generateImage apiKey net promptText img 0 []))
             = take N [1000, 2000, 4000, 8000, 16000]"
proof -
  let ?req = "build_request apiKey promptText img"
  have c0: "fetch_count [] = 0" by (simp add: fetch_count_def)
  have run: "generateImage apiKey net promptText img 0 [] =
               (Inr uri, [] @ retry_trace ?req 0 N @ [Fetch ?req])"
    by (rule generateImage_success_from) (use assms in \<open>simp_all add: c0\<close>)
  have cnt: "fetch_count (retry_trace ?req 0 N @ [Fetch ?req]) = N + 1"
    by (simp add: fetch_count_append fetch_count_retry_trace) (simp add: fetch_count_def)
  have sl: "sleeps (retry_trace ?req 0 N @ [Fetch ?req]) = take N [1000, 2000, 4000, 8000, 16000]"
    using assms(1) by (simp add: sleeps_append sleeps_retry_trace delays_def) (simp add: sleeps_def)
  show ?thesis using run cnt sl by simp
qed

theorem generateImage_retries_then_succeeds_witness:
  "(2::nat) \<le> 5 \<and>
   generateImage ''''
     (\<lambda>k req. if k < 2 then Response False 503 None
               else Response True 200
                      (Some \<lparr>candidates = None, predictions = Some [Prediction (Some ''QUJD'')]\<rparr>))
     ''a red coat'' None 0 []
   = (Inr ''data:image/png;base64,QUJD'',
      [Fetch (build_request '''' ''a red coat'' None), Warn 1, Sleep 1000,
       Fetch (build_request '''' ''a red coat'' None), Warn 2, Sleep 2000,
       Fetch (build_request '''' ''a red coat'' None)])"
  using generateImage_retries_then_succeeds
    [where N = 2 and apiKey = "''''" and promptText = "''a red coat''" and img = None
       and uri = "''data:image/png;base64,QUJD''"
       and net = "\<lambda>k req. if k < 2 then Response False 503 None
               else Response True 200
                      (Some \<lparr>candidates = None, predictions = Some [Prediction (Some ''QUJD'')]\<rparr>)"]
  by (simp add: decode_def imagen_base64_def bind_opt_def truthy_def build_request_def
        retry_trace_def delays_def upt_rec)

text \<open>
  Claim C2. For every promptText and optional reference image: when six attempts in a row
  fail, the call ends with the error of the sixth attempt (the outcome of request number
  5, counting from 0), after exactly six requests and the five waits; the trace ends with
  the sixth warning and no seventh request.
\<close>

theorem generateImage_six_failures:
  assumes "\<forall>k<6. isl (decode (isGemini (build_request apiKey promptText img))
                        (net k (build_request apiKey promptText img)))"
  shows "generateImage apiKey net promptText img 0 [] =
           (Inl (projl (decode (isGemini (build_request apiKey promptText img))
                          (net 5 (build_request apiKey promptText img)))),
            retry_trace (build_request apiKey promptText img) 0 5
              @ [Fetch (build_request apiKey promptText img), Warn 6])
         \<and> fetch_count (snd (generateImage apiKey net promptText img 0 [])) = 6
         \<and> sleeps (snd (generateImage apiKey net promptText img 0 []))
             = [1000, 2000, 4000, 8000, 16000]"
proof -
  let ?req = "build_request apiKey promptText img"
  have c0: "fetch_count [] = 0" by (simp add: fetch_count_def)
  have all: "\<forall>j\<le>5. isl (decode (isGemini ?req) (net (fetch_count [] + j) ?req))"
    using assms by (simp add: c0)
  have run: "generateImage apiKey net promptText img 0 [] =
               (Inl (projl (decode (isGemini ?req) (net (fetch_count [] + 5) ?req))),
                [] @ retry_trace ?req 0 5 @ [Fetch ?req, Warn 6])"
    by (rule generateImage_failure_from) (use all in simp_all)
  have cnt: "fetch_count (retry_trace ?req 0 5 @ [Fetch ?req, Warn 6]) = 6"
    by (simp add: fetch_count_append fetch_count_retry_trace) (simp add: fetch_count_def)
  have sl: "sleeps (retry_trace ?req 0 5 @ [Fetch ?req, Warn 6]) = [1000, 2000, 4000, 8000, 16000]"
    by (simp add: sleeps_append sleeps_retry_trace delays_def) (simp add: sleeps_def)
  show ?thesis using run cnt sl by (simp add: c0)
qed

theorem generateImage_six_failures_witness:
  "generateImage '''' (\<lambda>k req. Response False (500 + k) None) ''a red coat'' None 0 []
   = (Inl (HttpError 505),
      retry_trace (build_request '''' ''a red coat'' None) 0 5
        @ [Fetch (build_request '''' ''a red coat'' None), Warn 6])
   \<and> fetch_count (snd (generateImage '''' (\<lambda>k req. Response False (500 + k) None) ''a red coat'' None 0 [])) = 6
   \<and> sleeps (snd (generateImage '''' (\<lambda>k req. Response False (500 + k) None) ''a red coat'' None 0 []))
       = [1000, 2000, 4000, 8000, 16000]"
  using generateImage_six_failures
    [where apiKey = "''''" and promptText = "''a red coat''" and img = None
       and net = "\<lambda>k req. Response False (500 + k) None"]
  by (auto simp: decode_def)

text \<open>
  Claim C3, as stated, fails on two inputs that are not \<open>null\<close>. The empty string is
  falsy, so the request goes to the text-to-image endpoint; and a string without a comma
  (bare base64, not a data URI) goes to the image-to-image endpoint with no \<open>data\<close> in
  the body, since \<open>split(',')[1]\<close> is \<open>undefined\<close>.
\<close>

theorem build_request_empty_or_raw_image_counterexample:
  "url (build_request '''' ''a red coat'' (Some '''')) = imagen_url ''''
   \<and> url (build_request '''' ''a red coat'' (Some '''')) \<noteq> gemini_url ''''
   \<and> path (body (build_request '''' ''a red coat'' (Some ''iVBORw0KGgo='')))
         [Inl ''contents'', Inr 0, Inl ''parts'', Inr 1, Inl ''inlineData'', Inl ''data''] = None"
  by (simp add: build_request_def truthy_def gemini_url_def imagen_url_def opt_field_def)

text \<open>
  Claim C3, amended. When \<open>imageBase64\<close> is \<open>null\<close> or empty, the request targets the
  text-to-image endpoint and its body holds the instruction text and the sample count
  only. When it is a non-empty string, the request targets the image-to-image endpoint
  (a different URL) and the body holds the instruction text; when that string is a data
  URI, \<open>header,payload\<close> with one comma, the body also holds the payload as the inline
  image data.
\<close>

theorem build_request_endpoint_and_body:
  "(img = None \<or> img = Some [] \<longrightarrow>
      url (build_request apiKey promptText img) = imagen_url apiKey
      \<and> body (build_request apiKey promptText img) =
          JObj [(''instances'', JArr [JObj [(''prompt'', JStr promptText)]]),
                (''parameters'', JObj [(''sampleCount'', JNum 1)])])
   \<and> (img = Some s \<and> s \<noteq> [] \<longrightarrow>
      url (build_request apiKey promptText img) = gemini_url apiKey
      \<and> url (build_request apiKey promptText img) \<noteq> imagen_url apiKey
      \<and> path (body (build_request apiKey promptText img))
            [Inl ''contents'', Inr 0, Inl ''parts'', Inr 0, Inl ''text''] = Some (JStr promptText))
   \<and> (img = Some (header @ CHR '','' # payload) \<and> CHR '','' \<notin> set header \<and> CHR '','' \<notin> set payload \<longrightarrow>
      path (body (build_request apiKey promptText img))
            [Inl ''contents'', Inr 0, Inl ''parts'', Inr 1, Inl ''inlineData'', Inl ''data'']
        = Some (JStr payload))"
proof (intro conjI impI)
  assume "img = None \<or> img = Some []"
  then have nt: "\<not> truthy img" by (auto simp: truthy_def)
  show "url (build_request apiKey promptText img) = imagen_url apiKey"
    using nt by (simp add: build_request_def)
  show "body (build_request apiKey promptText img) =
          JObj [(''instances'', JArr [JObj [(''prompt'', JStr promptText)]]),
                (''parameters'', JObj [(''sampleCount'', JNum 1)])]"
    using nt by (simp add: build_request_def)
next
  assume "img = Some s \<and> s \<noteq> []"
  then have t: "truthy img" by (simp add: truthy_def)
  show "url (build_request apiKey promptText img) = gemini_url apiKey"
    using t by (simp add: build_request_def Let_def)
  then show "url (build_request apiKey promptText img) \<noteq> imagen_url apiKey"
    by (simp add: endpoints_distinct)
  show "path (body (build_request apiKey promptText img))
            [Inl ''contents'', Inr 0, Inl ''parts'', Inr 0, Inl ''text''] = Some (JStr promptText)"
    using t by (simp add: build_request_def Let_def)
next
  assume a: "img = Some (header @ CHR '','' # payload) \<and> CHR '','' \<notin> set header \<and> CHR '','' \<notin> set payload"
  then have t: "truthy img" by (simp add: truthy_def)
  have "index (split_str CHR '','' (the img)) 1 = Some payload"
    using a index_split_data_uri [of header payload] by simp
  then show "path (body (build_request apiKey promptText img))
            [Inl ''contents'', Inr 0, Inl ''parts'', Inr 1, Inl ''inlineData'', Inl ''data'']
        = Some (JStr payload)"
    using t by (simp add: build_request_def Let_def opt_field_def)
qed

theorem build_request_endpoint_and_body_witness:
  "url (build_request '''' ''a red coat'' None) = imagen_url ''''
   \<and> body (build_request '''' ''a red coat'' None) =
          JObj [(''instances'', JArr [JObj [(''prompt'', JStr ''a red coat'')]]),
                (''parameters'', JObj [(''sampleCount'', JNum 1)])]
   \<and> url (build_request '''' ''a red coat'' (Some ''data:image/png;base64,QUJD'')) = gemini_url ''''
   \<and> path (body (build_request '''' ''a red coat'' (Some ''data:image/png;base64,QUJD'')))
            [Inl ''contents'', Inr 0, Inl ''parts'', Inr 0, Inl ''text''] = Some (JStr ''a red coat'')
   \<and> path (body (build_request '''' ''a red coat'' (Some ''data:image/png;base64,QUJD'')))
            [Inl ''contents'', Inr 0, Inl ''parts'', Inr 1, Inl ''inlineData'', Inl ''data'']
        = Some (JStr ''QUJD'')"
  using build_request_endpoint_and_body
          [where img = None and apiKey = "''''" and promptText = "''a red coat''"]
        build_request_endpoint_and_body
          [where img = "Some ''data:image/png;base64,QUJD''" and apiKey = "''''"
             and promptText = "''a red coat''" and s = "''data:image/png;base64,QUJD''"
             and header = "''data:image/png;base64''" and payload = "''QUJD''"]
  by simp

section \<open>Properties of the sync adapter and of approve\<close>

lemma mset_insert_by: "mset (insert_by cmp x ys) = add_mset x (mset ys)"
  by (induction ys) auto

lemma mset_sort_by: "mset (sort_by cmp xs) = mset xs"
  by (induction xs) (auto simp: mset_insert_by)

lemma set_insert_by: "set (insert_by cmp x ys) = insert x (set ys)"
  by (induction ys) auto

lemma sorted_insert_by_created:
  "sorted_wrt (\<lambda>a b. createdAt b \<le> createdAt a) ys \<Longrightarrow>
   sorted_wrt (\<lambda>a b. createdAt b \<le> createdAt a) (insert_by compare_created x ys)"
  by (induction ys) (auto simp: set_insert_by compare_created_def)

lemma sorted_sort_by_created:
  "sorted_wrt (\<lambda>a b. createdAt b \<le> createdAt a) (sort_by compare_created xs)"
  by (induction xs) (auto simp: sorted_insert_by_created)

lemma approvedDesigns_snapshot_next:
  "approvedDesigns (snapshot_next snapshot s) = sort_by compare_created (map to_design snapshot)"
  by (simp add: snapshot_next_def)

lemma createdAt_to_design: "createdAt (to_design d) = d_createdAt (doc_data d)"
  by (simp add: to_design_def Let_def)

lemma distinct_created_sort_by:
  assumes "distinct (map createdAt xs)"
  shows "distinct (map createdAt (sort_by compare_created xs))"
proof -
  have "mset (map createdAt (sort_by compare_created xs)) = mset (map createdAt xs)"
    by (simp add: mset_sort_by)
  then show ?thesis using assms by (metis distinct_count_atmost_1 mset_eq_imp_distinct_iff)
qed

lemma sorted_strict_of_distinct:
  "sorted_wrt (\<lambda>a b. createdAt b \<le> createdAt a) xs \<Longrightarrow> distinct (map createdAt xs) \<Longrightarrow>
   sorted_wrt (\<lambda>a b. createdAt b < createdAt a) xs"
proof (induction xs)
  case Nil
  show ?case by simp
next
  case (Cons a xs)
  have "\<forall>x\<in>set xs. createdAt x < createdAt a"
  proof
    fix x assume x: "x \<in> set xs"
    with Cons.prems(1) have "createdAt x \<le> createdAt a" by simp
    moreover have "createdAt x \<noteq> createdAt a"
    proof
      assume "createdAt x = createdAt a"
      with x have "createdAt a \<in> createdAt ` set xs" by (metis imageI)
      with Cons.prems(2) show False by simp
    qed
    ultimately show "createdAt x < createdAt a" by simp
  qed
  moreover have "sorted_wrt (\<lambda>a b. createdAt b < createdAt a) xs"
    using Cons by simp
  ultimately show ?case by simp
qed

lemma authStateChanged_no_identity:
  assumes "usr = None \<or> usr = Some (User [])"
  shows "approvedDesigns (authStateChanged app_id usr s) = []
         \<and> userId (authStateChanged app_id usr s) = None
         \<and> listeners (authStateChanged app_id usr s) = listeners s
         \<and> unsubscribeRef (authStateChanged app_id usr s) = unsubscribeRef s"
  using assms by (auto simp: authStateChanged_def Let_def)

lemma authStateChanged_identity:
  assumes "usr = Some u" and "uid u \<noteq> []"
  shows "userId (authStateChanged app_id usr s) = Some (uid u)
         \<and> listeners (authStateChanged app_id usr s)
             = listeners s @ [(nextHandle s, designsCollectionPath app_id (uid u))]
         \<and> unsubscribeRef (authStateChanged app_id usr s) = Some (nextHandle s)"
  using assms by (simp add: authStateChanged_def Let_def onSnapshot_def)

lemma effect_setup_releases_listener:
  assumes "auth s" and "db s" and "unsubscribeRef s = Some h"
  shows "listeners (effect_setup s) = filter (\<lambda>l. fst l \<noteq> h) (listeners s)
         \<and> unsubscribeRef (effect_setup s) = None"
  using assms by (simp add: effect_setup_def unsubscribe_def Let_def)

text \<open>
  Claim C4 does not hold of the code. The auth-state callback attaches the listener of
  the new identity without calling the unsubscribe function stored in the ref: after
  callbacks for user A and then user B, the listeners of both are attached, the ref holds
  only the handle of B, and after the effect's cleanup the listener of A is still
  attached. Only the effect body (\<open>effect_setup_releases_listener\<close>) releases the stored
  listener first.
\<close>

theorem identity_change_leaves_two_listeners:
  "listeners (authStateChanged None (Some user_B) (authStateChanged None (Some user_A) ready_state))
     = [(0, ''/artifacts/default-app-id/users/A/approvedDesigns''),
        (1, ''/artifacts/default-app-id/users/B/approvedDesigns'')]
   \<and> unsubscribeRef (authStateChanged None (Some user_B) (authStateChanged None (Some user_A) ready_state))
     = Some 1
   \<and> listeners (effect_cleanup
        (authStateChanged None (Some user_B) (authStateChanged None (Some user_A) ready_state)))
     = [(0, ''/artifacts/default-app-id/users/A/approvedDesigns'')]"
  by (simp add: authStateChanged_def onSnapshot_def ready_state_def effect_setup_def
        initial_state_def user_A_def user_B_def designsCollectionPath_def appId_def
        effect_cleanup_def unsubscribe_def Let_def)

text \<open>
  Claim C5, as stated, fails when two documents carry the same \<open>createdAt\<close>: they end
  up next to each other, and neither is strictly newer.
\<close>

theorem snapshot_equal_timestamps_counterexample:
  "length (approvedDesigns (snapshot_next two_same_time initial_state)) = 2
   \<and> \<not> createdAt (approvedDesigns (snapshot_next two_same_time initial_state) ! 1)
        < createdAt (approvedDesigns (snapshot_next two_same_time initial_state) ! 0)"
  by (simp add: snapshot_next_def two_same_time_def to_design_def truthy_def compare_created_def)

text \<open>
  Claim C5, amended. After every snapshot the local list is sorted by \<open>createdAt\<close>,
  newest first: of two adjacent elements the later one has a \<open>createdAt\<close> that is less
  than or equal to the earlier one's, and strictly less when the \<open>createdAt\<close> values of
  the snapshot are pairwise distinct.
\<close>

theorem snapshot_sorted_newest_first:
  "(\<forall>i. Suc i < length (approvedDesigns (snapshot_next snapshot s)) \<longrightarrow>
        createdAt (approvedDesigns (snapshot_next snapshot s) ! Suc i)
          \<le> createdAt (approvedDesigns (snapshot_next snapshot s) ! i))
   \<and> (distinct (map (\<lambda>d. d_createdAt (doc_data d)) snapshot) \<longrightarrow>
       (\<forall>i. Suc i < length (approvedDesigns (snapshot_next snapshot s)) \<longrightarrow>
        createdAt (approvedDesigns (snapshot_next snapshot s) ! Suc i)
          < createdAt (approvedDesigns (snapshot_next snapshot s) ! i)))"
proof -
  let ?l = "approvedDesigns (snapshot_next snapshot s)"
  have l: "?l = sort_by compare_created (map to_design snapshot)"
    by (rule approvedDesigns_snapshot_next)
  have le: "sorted_wrt (\<lambda>a b. createdAt b \<le> createdAt a) ?l"
    unfolding l by (rule sorted_sort_by_created)
  have weak: "\<forall>i. Suc i < length ?l \<longrightarrow> createdAt (?l ! Suc i) \<le> createdAt (?l ! i)"
    using le by (simp add: sorted_wrt_iff_nth_less)
  have strict: "\<forall>i. Suc i < length ?l \<longrightarrow> createdAt (?l ! Suc i) < createdAt (?l ! i)"
    if d: "distinct (map (\<lambda>d. d_createdAt (doc_data d)) snapshot)"
  proof -
    have "map createdAt (map to_design snapshot) = map (\<lambda>d. d_createdAt (doc_data d)) snapshot"
      by (simp add: createdAt_to_design)
    with d have "distinct (map createdAt (map to_design snapshot))" by (simp only:)
    then have "distinct (map createdAt ?l)" unfolding l by (rule distinct_created_sort_by)
    with le have "sorted_wrt (\<lambda>a b. createdAt b < createdAt a) ?l"
      by (rule sorted_strict_of_distinct)
    then show ?thesis by (simp add: sorted_wrt_iff_nth_less)
  qed
  show ?thesis using weak strict by blast
qed

theorem snapshot_sorted_newest_first_witness:
  "distinct (map (\<lambda>d. d_createdAt (doc_data d)) three_docs)
   \<and> Suc 0 < length (approvedDesigns (snapshot_next three_docs initial_state))
   \<and> createdAt (approvedDesigns (snapshot_next three_docs initial_state) ! Suc 0)
       < createdAt (approvedDesigns (snapshot_next three_docs initial_state) ! 0)
   \<and> map createdAt (approvedDesigns (snapshot_next three_docs initial_state)) = [9, 5, 3]"
  using snapshot_sorted_newest_first [of three_docs initial_state]
  by (simp add: snapshot_next_def three_docs_def to_design_def truthy_def compare_created_def)

text \<open>
  Claim C6. For every snapshot the local list is rebuilt from the snapshot alone: it
  holds exactly the designs made from the snapshot's documents. A design made from a
  document without \<open>mode\<close> has mode \<open>fashion\<close>; one made from a document with \<open>mode\<close>
  keeps that value; the other fields are those of the document.
\<close>

theorem snapshot_default_mode:
  "mset (approvedDesigns (snapshot_next snapshot s)) = mset (map to_design snapshot)
   \<and> prompt (to_design d) = d_prompt (doc_data d)
   \<and> style (to_design d) = d_style (doc_data d)
   \<and> imageUrl (to_design d) = d_imageUrl (doc_data d)
   \<and> createdAt (to_design d) = d_createdAt (doc_data d)
   \<and> (d_mode (doc_data d) = None \<longrightarrow> mode (to_design d) = ''fashion'')
   \<and> (d_mode (doc_data d) = Some m \<longrightarrow> mode (to_design d) = m)"
  by (simp add: approvedDesigns_snapshot_next mset_sort_by to_design_def Let_def truthy_def)

theorem snapshot_default_mode_witness:
  "d_mode (doc_data (three_docs ! 0)) = None
   \<and> mode (to_design (three_docs ! 0)) = ''fashion''
   \<and> d_mode (doc_data (three_docs ! 1)) = Some ''architecture''
   \<and> mode (to_design (three_docs ! 1)) = ''architecture''
   \<and> map mode (approvedDesigns (snapshot_next three_docs initial_state))
       = [''architecture'', ''fashion'', ''fashion'']"
  using snapshot_default_mode [where d = "three_docs ! 0" and snapshot = three_docs and s = initial_state]
        snapshot_default_mode [where d = "three_docs ! 1" and m = "''architecture''"
                                 and snapshot = three_docs and s = initial_state]
  by (simp add: snapshot_next_def three_docs_def to_design_def truthy_def compare_created_def)

text \<open>
  Claim C7 does not hold of the code in every reachable state. A callback without a user
  clears the list and the user id and attaches no listener
  (\<open>authStateChanged_no_identity\<close>), but it does not release the listener attached
  before: after a callback for user A and then one with \<open>null\<close>, the listener of A is
  attached while no identity is present.
\<close>

theorem sign_out_leaves_listener_attached:
  "listeners (authStateChanged None None (authStateChanged None (Some user_A) ready_state))
     = [(0, ''/artifacts/default-app-id/users/A/approvedDesigns'')]
   \<and> userId (authStateChanged None None (authStateChanged None (Some user_A) ready_state)) = None
   \<and> approvedDesigns (authStateChanged None None (authStateChanged None (Some user_A) ready_state)) = []"
  by (simp add: authStateChanged_def onSnapshot_def ready_state_def effect_setup_def
        initial_state_def user_A_def designsCollectionPath_def appId_def Let_def)

text \<open>
  Claim C8. When approve is invoked with no generated image (\<open>null\<close> or empty), or with
  the store or auth instance not set, or with no signed-in user or one without uid, one
  of the two validation messages becomes the error state, no \<open>addDoc\<close> call is issued,
  and the displayed image is as before.
\<close>

theorem approve_rejected_when_not_ready:
  assumes "currentImage s = None \<or> currentImage s = Some [] \<or> \<not> db s \<or> \<not> auth s
           \<or> currentUser s = None \<or> currentUser s = Some (User [])"
  shows "(error (handleApproveDesign app_id now addDoc_ok s)
            = Some ''Cannot approve design: No generated image or storage not ready.''
          \<or> error (handleApproveDesign app_id now addDoc_ok s)
            = Some ''Cannot approve design: Authentication failed.'')
         \<and> addDocCalls (handleApproveDesign app_id now addDoc_ok s) = addDocCalls s
         \<and> currentImage (handleApproveDesign app_id now addDoc_ok s) = currentImage s"
  using assms by (auto simp: handleApproveDesign_def truthy_def Let_def)

theorem approve_rejected_when_not_ready_witness:
  "currentImage (ready_state\<lparr> currentUser := Some user_A \<rparr>) = None
   \<and> error (handleApproveDesign None 1700000000000 True (ready_state\<lparr> currentUser := Some user_A \<rparr>))
       = Some ''Cannot approve design: No generated image or storage not ready.''
   \<and> addDocCalls (handleApproveDesign None 1700000000000 True (ready_state\<lparr> currentUser := Some user_A \<rparr>)) = []"
  using approve_rejected_when_not_ready
          [where s = "ready_state\<lparr> currentUser := Some user_A \<rparr>" and app_id = None
             and now = 1700000000000 and addDoc_ok = True]
  by (simp add: ready_state_def effect_setup_def initial_state_def handleApproveDesign_def truthy_def)

text \<open>
  Claim C9. When approve passes its checks (instances set, an image on display, a user
  with a uid), it issues one \<open>addDoc\<close> call with the new record under the collection of
  that user. If the write succeeds, the displayed image becomes \<open>null\<close> (and the error
  state too); if it fails, the error state is the save-failure message and the displayed
  image is unchanged.
\<close>

theorem approve_write_outcome:
  assumes "db s" and "auth s" and "currentImage s = Some img" and "img \<noteq> []"
    and "currentUser s = Some u" and "uid u \<noteq> []"
  shows "currentImage (handleApproveDesign app_id now True s) = None
         \<and> error (handleApproveDesign app_id now True s) = None
         \<and> error (handleApproveDesign app_id now False s) = Some ''Failed to save design to storage.''
         \<and> currentImage (handleApproveDesign app_id now False s) = currentImage s
         \<and> addDocCalls (handleApproveDesign app_id now addDoc_ok s)
             = addDocCalls s @
               [(designsCollectionPath app_id (uid u),
                 \<lparr> d_prompt = inputText s, d_style = selectedStyle s,
                   d_mode = Some (mode_string (designMode s)),
                   d_imageUrl = img, d_createdAt = now \<rparr>)]"
  using assms by (simp add: handleApproveDesign_def truthy_def Let_def)

theorem approve_write_outcome_witness:
  "db showing_image \<and> auth showing_image
   \<and> currentImage showing_image = Some ''data:image/png;base64,QUJD''
   \<and> currentUser showing_image = Some user_A \<and> uid user_A \<noteq> []
   \<and> currentImage (handleApproveDesign None 1700000000000 True showing_image) = None
   \<and> error (handleApproveDesign None 1700000000000 False showing_image)
       = Some ''Failed to save design to storage.''
   \<and> currentImage (handleApproveDesign None 1700000000000 False showing_image)
       = Some ''data:image/png;base64,QUJD''"
  using approve_write_outcome
          [where s = showing_image and img = "''data:image/png;base64,QUJD''" and u = user_A
             and app_id = None and now = 1700000000000]
  by (simp add: showing_image_def ready_state_def effect_setup_def initial_state_def user_A_def)

text \<open>
  Claim C10. Every delivered snapshot sets the error state to \<open>null\<close>, whatever it was
  before and whichever operation had set it.
\<close>

theorem snapshot_clears_error:
  "error (snapshot_next snapshot s) = None
   \<and> error (snapshot_next snapshot (s\<lparr> error := Some msg \<rparr>)) = None"
  by (simp add: snapshot_next_def)

theorem snapshot_clears_error_witness:
  "error (handleApproveDesign None 1700000000000 False showing_image)
     = Some ''Failed to save design to storage.''
   \<and> error (snapshot_next three_docs (handleApproveDesign None 1700000000000 False showing_image)) = None"
  using snapshot_clears_error
          [where snapshot = three_docs
             and s = "handleApproveDesign None 1700000000000 False showing_image"]
  by (simp add: showing_image_def ready_state_def effect_setup_def initial_state_def user_A_def
        handleApproveDesign_def truthy_def)

end
